theory Spec2Isabelle
  imports Main "HOL-Library.Word" "HOL-Library.Signed_Division" "HOL-Library.Multiset"
begin

unbundle bit_operations_syntax

section \<open>The C library as the program uses it\<close>

subsection \<open>Strings\<close>

text \<open>
  A C string is the list of its bytes; the terminating NUL is the end of the list (a NUL
  inside the list ends the string there, as it would in memory). \<open>strcmp\<close> compares
  byte by byte as unsigned chars; only the sign of its result is fixed by the standard, the
  model returns the difference of the first differing bytes.
\<close>

fun strcmp :: "string \<Rightarrow> string \<Rightarrow> int" where
  "strcmp [] [] = 0"
| "strcmp [] (d # ds) = - of_char d"
| "strcmp (c # cs) [] = of_char c"
| "strcmp (c # cs) (d # ds) =
     (if c = d then (if c = CHR 0x00 then 0 else strcmp cs ds) else of_char c - of_char d)"

text \<open>\<open>tolower\<close> in the C locale: the bytes \<open>A\<close> .. \<open>Z\<close> (65 .. 90) move up by 32.\<close>

definition tolower :: "char \<Rightarrow> char" where
  "tolower c = (let n = (of_char c :: nat) in if 65 \<le> n \<and> n \<le> 90 then char_of (n + 32) else c)"

text \<open>
  \<open>basename\<close> of \<open>libgen.h\<close>: trailing slashes are dropped and the last component is
  returned; the empty path gives \<open>.\<close> and a path of slashes gives \<open>/\<close>.
\<close>

definition basename :: "string \<Rightarrow> string" where
  "basename path =
     (if path = [] then ''.''
      else let p = dropWhile (\<lambda>c. c = CHR ''/'') (rev path)
           in if p = [] then ''/'' else rev (takeWhile (\<lambda>c. c \<noteq> CHR ''/'') p))"

text \<open>
  \<open>basename\<close> works in place: when the path ends in slashes after its last component,
  it writes a NUL over the first of them, and the caller's string is the shorter path from
  then on. A path of slashes only, and the empty path, stay as they are.
\<close>

definition basename_cut :: "string \<Rightarrow> string" where
  "basename_cut path =
     (let p = rev (dropWhile (\<lambda>c. c = CHR ''/'') (rev path))
      in if p = [] then path else p)"

subsection \<open>Numbers as \<open>printf\<close> writes them\<close>

fun show_nat :: "nat \<Rightarrow> string" where
  "show_nat n = (if n < 10 then [char_of (48 + n)] else show_nat (n div 10) @ [char_of (48 + n mod 10)])"

declare show_nat.simps [simp del]

text \<open>\<open>%ld\<close>: a 64-bit value read as a signed long.\<close>

definition show_ld :: "64 word \<Rightarrow> string" where
  "show_ld x = (if sint x < 0 then CHR ''-'' # show_nat (nat (- sint x)) else show_nat (nat (sint x)))"

text \<open>A field width pads with spaces on the left; the \<open>-\<close> flag pads on the right.\<close>

definition pad_left :: "nat \<Rightarrow> string \<Rightarrow> string" where
  "pad_left n s = replicate (n - length s) CHR '' '' @ s"

definition pad_right :: "nat \<Rightarrow> string \<Rightarrow> string" where
  "pad_right n s = s @ replicate (n - length s) CHR '' ''"

text \<open>
  Division of two longs truncates towards zero; the quotient is stored back in 64 bits.
\<close>

definition long_div :: "64 word \<Rightarrow> 64 word \<Rightarrow> 64 word" where
  "long_div a b = word_of_int (sint a sdiv sint b)"

subsection \<open>\<open>qsort\<close>\<close>

text \<open>
  The standard leaves the algorithm of \<open>qsort\<close> open. The model follows the merge sort of
  the GNU C library: the array is cut at \<open>n / 2\<close>, both halves are sorted, and the merge
  takes from the left run whenever the comparator returns a value \<open>\<le> 0\<close>.
\<close>

fun qsort_merge :: "('a \<Rightarrow> 'a \<Rightarrow> int) \<Rightarrow> 'a list \<Rightarrow> 'a list \<Rightarrow> 'a list" where
  "qsort_merge cmp [] ys = ys"
| "qsort_merge cmp (x # xs) [] = x # xs"
| "qsort_merge cmp (x # xs) (y # ys) =
     (if cmp x y \<le> 0 then x # qsort_merge cmp xs (y # ys) else y # qsort_merge cmp (x # xs) ys)"

fun qsort :: "('a \<Rightarrow> 'a \<Rightarrow> int) \<Rightarrow> 'a list \<Rightarrow> 'a list" where
  "qsort cmp xs =
     (if length xs \<le> 1 then xs
      else qsort_merge cmp (qsort cmp (take (length xs div 2) xs))
                           (qsort cmp (drop (length xs div 2) xs)))"

declare qsort.simps [simp del]

text \<open>What a caller of \<open>qsort\<close> may rely on: the array is ascending for the comparator.\<close>

definition ascending :: "('a \<Rightarrow> 'a \<Rightarrow> int) \<Rightarrow> 'a list \<Rightarrow> bool" where
  "ascending cmp xs = sorted_wrt (\<lambda>a b. cmp a b \<le> 0) xs"

subsection \<open>File metadata\<close>

text \<open>
  The fields of \<open>struct stat\<close> the program reads. Sizes, link counts and inode numbers are
  64-bit, the mode and the ids 32-bit; the three timestamps are only ever compared, so
  they are plain integers.
\<close>

record stat_rec =
  st_mode :: "32 word"
  st_ino :: "64 word"
  st_nlink :: "64 word"
  st_uid :: "32 word"
  st_gid :: "32 word"
  st_size :: "64 word"
  st_atime :: int
  st_mtime :: int
  st_ctime :: int

text \<open>The mode bits of \<open>sys/stat.h\<close> (octal in the header, hexadecimal here).\<close>

definition S_IFMT :: "32 word" where "S_IFMT = 0xF000"
definition S_IFSOCK :: "32 word" where "S_IFSOCK = 0xC000"
definition S_IFLNK :: "32 word" where "S_IFLNK = 0xA000"
definition S_IFREG :: "32 word" where "S_IFREG = 0x8000"
definition S_IFBLK :: "32 word" where "S_IFBLK = 0x6000"
definition S_IFDIR :: "32 word" where "S_IFDIR = 0x4000"
definition S_IFCHR :: "32 word" where "S_IFCHR = 0x2000"
definition S_IFIFO :: "32 word" where "S_IFIFO = 0x1000"

definition S_ISUID :: "32 word" where "S_ISUID = 0x800"
definition S_ISGID :: "32 word" where "S_ISGID = 0x400"
definition S_ISVTX :: "32 word" where "S_ISVTX = 0x200"
definition S_IRUSR :: "32 word" where "S_IRUSR = 0x100"
definition S_IWUSR :: "32 word" where "S_IWUSR = 0x80"
definition S_IXUSR :: "32 word" where "S_IXUSR = 0x40"
definition S_IRGRP :: "32 word" where "S_IRGRP = 0x20"
definition S_IWGRP :: "32 word" where "S_IWGRP = 0x10"
definition S_IXGRP :: "32 word" where "S_IXGRP = 0x8"
definition S_IROTH :: "32 word" where "S_IROTH = 0x4"
definition S_IWOTH :: "32 word" where "S_IWOTH = 0x2"
definition S_IXOTH :: "32 word" where "S_IXOTH = 0x1"

definition S_ISREG :: "32 word \<Rightarrow> bool" where "S_ISREG m = (m AND S_IFMT = S_IFREG)"
definition S_ISDIR :: "32 word \<Rightarrow> bool" where "S_ISDIR m = (m AND S_IFMT = S_IFDIR)"
definition S_ISBLK :: "32 word \<Rightarrow> bool" where "S_ISBLK m = (m AND S_IFMT = S_IFBLK)"
definition S_ISCHR :: "32 word \<Rightarrow> bool" where "S_ISCHR m = (m AND S_IFMT = S_IFCHR)"
definition S_ISLNK :: "32 word \<Rightarrow> bool" where "S_ISLNK m = (m AND S_IFMT = S_IFLNK)"
definition S_ISFIFO :: "32 word \<Rightarrow> bool" where "S_ISFIFO m = (m AND S_IFMT = S_IFIFO)"
definition S_ISSOCK :: "32 word \<Rightarrow> bool" where "S_ISSOCK m = (m AND S_IFMT = S_IFSOCK)"

subsection \<open>The operating system\<close>

text \<open>
  The system calls answer from a fixed snapshot. A relative path is resolved from the
  working directory of the process, so \<open>stat_w w name\<close> for a bare name is the file of that
  name in the working directory. \<open>opendir_w\<close> gives the names of a directory in the order
  \<open>readdir\<close> returns them. The broken-down time of \<open>localtime\<close> is never inspected, so
  it is the timestamp itself; \<open>strftime_w\<close> is the text \<open>strftime\<close> writes under the
  locale in force, the empty text standing for the return value 0.
\<close>

record world =
  opendir_w :: "string \<Rightarrow> string list option"
  stat_w :: "string \<Rightarrow> stat_rec option"
  lstat_w :: "string \<Rightarrow> stat_rec option"
  readlink_w :: "string \<Rightarrow> string option"
  getpwuid_w :: "32 word \<Rightarrow> string option"
  getgrgid_w :: "32 word \<Rightarrow> string option"
  localtime_w :: "int \<Rightarrow> int option"
  strftime_w :: "int \<Rightarrow> string"

text \<open>
  What the process writes, in order: text on standard output, text on standard error, and
  calls of \<open>perror\<close> (whose text after the prefix depends on \<open>errno\<close>).
\<close>

datatype event = Stdout string | Stderr string | Perror string

text \<open>The state a listing routine changes: its output and the directory handles it holds open.\<close>

record sys_state =
  written :: "event list"
  open_dirs :: nat

definition emit :: "event list \<Rightarrow> sys_state \<Rightarrow> sys_state" where
  "emit es s = s\<lparr>written := written s @ es\<rparr>"

section \<open>myls.c: the option flags\<close>

text \<open>
  The ten global flags. They are \<open>uint8_t\<close> variables that only ever hold 0 or 1 and are
  only ever tested against 0 or 1, so each is a truth value.
\<close>

record flags =
  is_long_format_enabled :: bool
  is_no_option_enabled :: bool
  is_hidden_files_enabled :: bool
  is_sort_by_time_enabled :: bool
  is_sort_by_access_time_enabled :: bool
  is_directory_option_enabled :: bool
  is_ctime_option_enabled :: bool
  is_no_sort_enabled :: bool
  is_inode_enabled :: bool
  is_column_output_enabled :: bool

definition initial_flags :: flags where
  "initial_flags =
     \<lparr>is_long_format_enabled = False, is_no_option_enabled = False,
      is_hidden_files_enabled = False, is_sort_by_time_enabled = False,
      is_sort_by_access_time_enabled = False, is_directory_option_enabled = False,
      is_ctime_option_enabled = False, is_no_sort_enabled = False,
      is_inode_enabled = False, is_column_output_enabled = False\<rparr>"

text \<open>
  One round of the \<open>getopt\<close> loop of \<open>main\<close>: the flag "an option was seen" is set, then
  the \<open>switch\<close> runs. Case \<open>t\<close> falls through into case \<open>u\<close>, and case \<open>d\<close> into case \<open>c\<close>.
  An unknown option letter arrives as \<open>?\<close> and only prints the usage line.
\<close>

definition set_option :: "char \<Rightarrow> flags \<Rightarrow> flags" where
  "set_option opt f0 =
     (let f = f0\<lparr>is_no_option_enabled := True\<rparr> in
      if opt = CHR ''l'' then f\<lparr>is_long_format_enabled := True\<rparr>
      else if opt = CHR ''a'' then f\<lparr>is_hidden_files_enabled := True\<rparr>
      else if opt = CHR ''t'' then f\<lparr>is_sort_by_time_enabled := True, is_sort_by_access_time_enabled := True\<rparr>
      else if opt = CHR ''u'' then f\<lparr>is_sort_by_access_time_enabled := True\<rparr>
      else if opt = CHR ''d'' then f\<lparr>is_directory_option_enabled := True, is_ctime_option_enabled := True\<rparr>
      else if opt = CHR ''c'' then f\<lparr>is_ctime_option_enabled := True\<rparr>
      else if opt = CHR ''f'' then f\<lparr>is_no_sort_enabled := True\<rparr>
      else if opt = CHR ''i'' then f\<lparr>is_inode_enabled := True\<rparr>
      else if opt = CHR ''1'' then f\<lparr>is_column_output_enabled := True\<rparr>
      else f)"

definition parse_options :: "string \<Rightarrow> flags" where
  "parse_options opts = foldl (\<lambda>f opt. set_option opt f) initial_flags opts"

section \<open>ls_Functions.c: the comparators\<close>

text \<open>
  The comparators receive the entry names as \<open>qsort\<close> holds them and hand exactly these
  strings to \<open>stat\<close>. Their \<open>perror\<close> lines are left out of the model (and so out of
  \<open>written\<close>): how often a comparator runs is up to \<open>qsort\<close>. The names compared come
  from \<open>readdir\<close> or from the command line and fit the two buffers of 1024 bytes that
  \<open>compare_case_insensitive\<close> copies them into.
\<close>

definition compare_by_ctime :: "world \<Rightarrow> string \<Rightarrow> string \<Rightarrow> int" where
  "compare_by_ctime w file_path1 file_path2 =
     (case stat_w w file_path1 of
        None \<Rightarrow> 1
      | Some file_stat1 \<Rightarrow>
          (case stat_w w file_path2 of
             None \<Rightarrow> - 1
           | Some file_stat2 \<Rightarrow>
               if st_ctime file_stat1 > st_ctime file_stat2 then - 1
               else if st_ctime file_stat1 < st_ctime file_stat2 then 1
               else 0))"

definition compare_by_access_time :: "world \<Rightarrow> string \<Rightarrow> string \<Rightarrow> int" where
  "compare_by_access_time w a b =
     (case stat_w w a of
        None \<Rightarrow> 1
      | Some file_stat1 \<Rightarrow>
          (case stat_w w b of
             None \<Rightarrow> - 1
           | Some file_stat2 \<Rightarrow>
               if st_atime file_stat1 < st_atime file_stat2 then 1
               else if st_atime file_stat1 > st_atime file_stat2 then - 1
               else strcmp a b))"

definition compare_case_insensitive :: "string \<Rightarrow> string \<Rightarrow> int" where
  "compare_case_insensitive file_name1 file_name2 =
     strcmp (map tolower file_name1) (map tolower file_name2)"

definition compare_with_hidden :: "string \<Rightarrow> string \<Rightarrow> int" where
  "compare_with_hidden file_name1 file_name2 =
     (if strcmp file_name1 ''.'' = 0 then - 1
      else if strcmp file_name1 ''..'' = 0 then - 1
      else if strcmp file_name2 ''.'' = 0 then 1
      else if strcmp file_name2 ''..'' = 0 then 1
      else strcmp file_name1 file_name2)"

definition compare_names :: "string \<Rightarrow> string \<Rightarrow> int" where
  "compare_names a b = strcmp a b"

section \<open>ls_Functions.c: printing one name\<close>

definition esc :: string where
  "esc = [CHR 0x1B]"

definition newline :: string where
  "newline = [CHR 0x0A]"

definition blue :: "string \<Rightarrow> string" where
  "blue s = esc @ ''[34m'' @ s @ esc @ ''[0m''"

definition cyan :: "string \<Rightarrow> string" where
  "cyan s = esc @ ''[36m'' @ s @ esc @ ''[0m''"

definition green :: "string \<Rightarrow> string" where
  "green s = esc @ ''[32m'' @ s @ esc @ ''[0m''"

text \<open>\<open>readlink\<close> into \<open>target_path[256]\<close> with room for 255 bytes.\<close>

definition readlink_target :: "world \<Rightarrow> string \<Rightarrow> string option" where
  "readlink_target w path = map_option (take 255) (readlink_w w path)"

text \<open>
  \<open>print_with_color\<close> and \<open>print_column_with_color\<close> are the same code up to the text
  that ends every \<open>printf\<close> format: three spaces in the first, a line feed in the second.
  \<open>print_name\<close> is that common body, with the ending as \<open>fin\<close>. The call of
  \<open>basename\<close> comes first, so \<open>lstat\<close> and \<open>readlink\<close> see the path as
  \<open>basename\<close> left it.
\<close>

definition print_name :: "string \<Rightarrow> flags \<Rightarrow> world \<Rightarrow> string \<Rightarrow> event list" where
  "print_name fin f w path0 =
     (let file_name = basename path0; path = basename_cut path0 in
      case lstat_w w path of
        None \<Rightarrow> [Perror ''Failed to retrieve file information'']
      | Some file_info \<Rightarrow>
          if \<not> is_no_sort_enabled f then
            if S_ISDIR (st_mode file_info) then [Stdout (blue file_name @ fin)]
            else if S_ISLNK (st_mode file_info) then
              (case readlink_target w path of
                 None \<Rightarrow> [Stdout (cyan file_name @ fin)]
               | Some target_path \<Rightarrow>
                   if is_long_format_enabled f then
                     (case lstat_w w target_path of
                        None \<Rightarrow> [Stdout (cyan file_name @ '' -> '' @ target_path @ fin)]
                      | Some target_info \<Rightarrow>
                          if S_ISDIR (st_mode target_info)
                          then [Stdout (cyan file_name @ '' -> '' @ blue target_path @ fin)]
                          else if st_mode target_info AND S_IXUSR \<noteq> 0
                          then [Stdout (cyan file_name @ '' -> '' @ green target_path @ fin)]
                          else [Stdout (cyan file_name @ '' -> '' @ target_path @ fin)])
                   else [Stdout (cyan file_name @ fin)])
            else if st_mode file_info AND S_IXUSR \<noteq> 0 then [Stdout (green file_name @ fin)]
            else [Stdout (file_name @ fin)]
          else
            (case readlink_target w path of
               None \<Rightarrow> [Stdout (file_name @ fin)]
             | Some target_path \<Rightarrow>
                 if is_long_format_enabled f
                 then [Stdout (file_name @ '' -> '' @ target_path @ fin)]
                 else [Stdout (file_name @ fin)]))"

definition print_with_color :: "flags \<Rightarrow> world \<Rightarrow> string \<Rightarrow> event list" where
  "print_with_color f w path = print_name ''   '' f w path"

definition print_column_with_color :: "flags \<Rightarrow> world \<Rightarrow> string \<Rightarrow> event list" where
  "print_column_with_color f w path = print_name newline f w path"

section \<open>ls_Functions.c: the long format of one entry\<close>

definition type_char :: "32 word \<Rightarrow> string" where
  "type_char mode =
     (if S_ISREG mode then ''-''
      else if S_ISDIR mode then ''d''
      else if S_ISBLK mode then ''b''
      else if S_ISCHR mode then ''c''
      else if S_ISLNK mode then ''l''
      else if S_ISFIFO mode then ''p''
      else if S_ISSOCK mode then ''s''
      else ''Unknown type'')"

text \<open>
  The permission buffer starts as nine dashes; each of the nine tests overwrites one
  position.
\<close>

definition permission_string :: "32 word \<Rightarrow> string" where
  "permission_string mode =
     (let p = ''---------'';
          p = (if mode AND S_IRUSR \<noteq> 0 then p[0 := CHR ''r''] else p);
          p = (if mode AND S_IWUSR \<noteq> 0 then p[1 := CHR ''w''] else p);
          p = (if mode AND S_IXUSR \<noteq> 0
               then p[2 := (if mode AND S_ISUID \<noteq> 0 then CHR ''s'' else CHR ''x'')] else p);
          p = (if mode AND S_IRGRP \<noteq> 0 then p[3 := CHR ''r''] else p);
          p = (if mode AND S_IWGRP \<noteq> 0 then p[4 := CHR ''w''] else p);
          p = (if mode AND S_IXGRP \<noteq> 0
               then p[5 := (if mode AND S_ISGID \<noteq> 0 then CHR ''s'' else CHR ''x'')] else p);
          p = (if mode AND S_IROTH \<noteq> 0 then p[6 := CHR ''r''] else p);
          p = (if mode AND S_IWOTH \<noteq> 0 then p[7 := CHR ''w''] else p);
          p = (if mode AND S_IXOTH \<noteq> 0
               then p[8 := (if mode AND S_ISVTX \<noteq> 0 then CHR ''t'' else CHR ''x'')] else p)
      in p)"

definition print_longformat :: "flags \<Rightarrow> world \<Rightarrow> string \<Rightarrow> event list" where
  "print_longformat f w path =
     (case lstat_w w path of
        None \<Rightarrow> [Perror ''lstat failed'']
      | Some buf \<Rightarrow>
          let mode = st_mode buf;
              kind = [Stdout (type_char mode)];
              permissions = permission_string mode
          in case getpwuid_w w (st_uid buf) of
               None \<Rightarrow> kind @ [Perror ''getpwuid failed'']
             | Some pw_name \<Rightarrow>
                 (case getgrgid_w w (st_gid buf) of
                    None \<Rightarrow> kind @ [Perror ''getgrgid failed'']
                  | Some gr_name \<Rightarrow>
                      (case localtime_w w (st_mtime buf) of
                         None \<Rightarrow> kind @ [Perror ''localtime failed'']
                       | Some modification_time \<Rightarrow>
                           let time_str = strftime_w w modification_time in
                           if time_str = [] then kind @ [Stdout (''Error formatting the time'' @ newline)]
                           else kind @
                                [Stdout (permissions @ '' ''),
                                 Stdout (pad_right 2 (show_ld (st_nlink buf)) @ '' ''),
                                 Stdout (pad_left 6 pw_name @ '' ''),
                                 Stdout (pad_left 6 gr_name @ '' ''),
                                 Stdout (pad_left 5 (show_ld (st_size buf)) @ '' ''),
                                 Stdout (pad_left 16 time_str @ '' '')] @
                                print_with_color f w path @ [Stdout newline])))"

section \<open>ls_Functions.c: listing a directory\<close>

definition MAX_ENTRIES :: nat where
  "MAX_ENTRIES = 100"

text \<open>
  Storing a name past the end of the array of entries has no defined behaviour; the model
  stops there with a fault.
\<close>

datatype fault = Array_overflow

text \<open>The test both listing routines apply to every name \<open>readdir\<close> returns.\<close>

definition skip_entry :: "flags \<Rightarrow> string \<Rightarrow> bool" where
  "skip_entry f d_name =
     ((case d_name of [] \<Rightarrow> False | c # cs \<Rightarrow> c = CHR ''.'')
      \<and> \<not> is_hidden_files_enabled f \<and> \<not> is_no_sort_enabled f)"

text \<open>\<open>snprintf\<close> into \<open>full_path[1024]\<close> keeps at most 1023 bytes.\<close>

definition join_path :: "string \<Rightarrow> string \<Rightarrow> string" where
  "join_path input_path name = take 1023 (input_path @ ''/'' @ name)"

definition entry_path :: "string \<Rightarrow> string \<Rightarrow> string" where
  "entry_path input_path name =
     (if strcmp input_path ''/'' = 0 then take 1023 (input_path @ name)
      else join_path input_path name)"

definition opendir_st :: "sys_state \<Rightarrow> sys_state" where
  "opendir_st s = s\<lparr>open_dirs := Suc (open_dirs s)\<rparr>"

definition closedir_st :: "sys_state \<Rightarrow> sys_state" where
  "closedir_st s = s\<lparr>open_dirs := open_dirs s - 1\<rparr>"

definition print_inode :: "flags \<Rightarrow> world \<Rightarrow> string \<Rightarrow> event list" where
  "print_inode f w path =
     (if is_inode_enabled f
      then (case lstat_w w path of
              Some file_stat \<Rightarrow> [Stdout (pad_left 6 (show_ld (st_ino file_stat)) @ '' '')]
            | None \<Rightarrow> [])
      else [])"

subsection \<open>\<open>do_ls\<close>\<close>

text \<open>The \<open>readdir\<close> loop of \<open>do_ls\<close>; \<open>file_entries\<close> are the names stored so far.\<close>

fun do_ls_read :: "flags \<Rightarrow> string list \<Rightarrow> string list \<Rightarrow> fault + string list" where
  "do_ls_read f [] file_entries = Inr file_entries"
| "do_ls_read f (d_name # rest) file_entries =
     (if skip_entry f d_name then do_ls_read f rest file_entries
      else if MAX_ENTRIES \<le> length file_entries then Inl Array_overflow
      else do_ls_read f rest (file_entries @ [d_name]))"

definition do_ls_sort :: "flags \<Rightarrow> world \<Rightarrow> string list \<Rightarrow> string list" where
  "do_ls_sort f w file_entries =
     (if (is_sort_by_time_enabled f \<or> is_sort_by_access_time_enabled f) \<and> \<not> is_no_sort_enabled f
      then qsort (compare_by_access_time w) file_entries
      else if is_ctime_option_enabled f \<and> \<not> is_no_sort_enabled f
      then qsort (compare_by_ctime w) file_entries
      else if \<not> is_no_sort_enabled f
      then qsort compare_with_hidden file_entries
      else file_entries)"

definition do_ls_print :: "flags \<Rightarrow> world \<Rightarrow> string \<Rightarrow> event list" where
  "do_ls_print f w path =
     print_inode f w path @
     (if is_column_output_enabled f then print_column_with_color f w path
      else print_with_color f w path)"

definition do_ls :: "flags \<Rightarrow> world \<Rightarrow> string \<Rightarrow> sys_state \<Rightarrow> fault + sys_state" where
  "do_ls f w input_path s =
     (let last_line = (if \<not> is_column_output_enabled f then [Stdout newline] else []) in
      case opendir_w w input_path of
        None \<Rightarrow>
          (case stat_w w input_path of
             None \<Rightarrow> Inr (emit [Perror ''stat failed''] s)
           | Some file_stat \<Rightarrow>
               if \<not> S_ISREG (st_mode file_stat)
               then Inr (emit [Stderr (''Cannot open directory: '' @ input_path @ newline)] s)
               else Inr (emit (do_ls_print f w input_path @ last_line) s))
      | Some names \<Rightarrow>
          (case do_ls_read f names [] of
             Inl e \<Rightarrow> Inl e
           | Inr file_entries \<Rightarrow>
               let s1 = closedir_st (opendir_st s);
                   sorted = do_ls_sort f w file_entries
               in Inr (emit (concat (map (\<lambda>name. do_ls_print f w (entry_path input_path name)) sorted)
                             @ last_line) s1)))"

subsection \<open>\<open>list_directory_long_format\<close>\<close>

text \<open>
  The first pass of \<open>list_directory_long_format\<close>, with the names stored so far and the
  running \<open>total_size\<close>. \<open>Inr None\<close> is the \<open>return\<close> inside the loop, taken when
  \<open>stat\<close> fails on the entry just stored.
\<close>

fun long_read ::
  "flags \<Rightarrow> world \<Rightarrow> string \<Rightarrow> string list \<Rightarrow> string list \<Rightarrow> 64 word
     \<Rightarrow> fault + (string list \<times> 64 word) option" where
  "long_read f w input_path [] filenames total_size = Inr (Some (filenames, total_size))"
| "long_read f w input_path (d_name # rest) filenames total_size =
     (if skip_entry f d_name then long_read f w input_path rest filenames total_size
      else if 1024 \<le> length filenames then Inl Array_overflow
      else (case stat_w w (entry_path input_path d_name) of
              Some file_stat \<Rightarrow>
                long_read f w input_path rest (filenames @ [d_name]) (total_size + st_size file_stat)
            | None \<Rightarrow> Inr None))"

definition long_sort :: "flags \<Rightarrow> world \<Rightarrow> string list \<Rightarrow> string list" where
  "long_sort f w filenames =
     (if is_hidden_files_enabled f \<and> \<not> is_sort_by_time_enabled f \<and> \<not> is_no_sort_enabled f
      then qsort compare_with_hidden filenames
      else if is_sort_by_time_enabled f \<and> \<not> is_no_sort_enabled f
      then qsort (compare_by_access_time w) filenames
      else if \<not> is_no_sort_enabled f
      then qsort compare_case_insensitive filenames
      else filenames)"

definition total_line :: "64 word \<Rightarrow> event" where
  "total_line total_size = Stdout (''total '' @ show_ld (long_div total_size 1024) @ newline)"

definition long_print :: "flags \<Rightarrow> world \<Rightarrow> string \<Rightarrow> event list" where
  "long_print f w path = print_inode f w path @ print_longformat f w path"

definition list_directory_long_format ::
  "flags \<Rightarrow> world \<Rightarrow> string \<Rightarrow> sys_state \<Rightarrow> fault + sys_state" where
  "list_directory_long_format f w input_path s =
     (case opendir_w w input_path of
        None \<Rightarrow>
          (case stat_w w input_path of
             None \<Rightarrow> Inr (emit [Perror ''stat failed''] s)
           | Some file_stat \<Rightarrow>
               if \<not> S_ISREG (st_mode file_stat)
               then Inr (emit [Stderr (''Cannot open directory: '' @ input_path @ newline)] s)
               else Inr (emit (long_print f w input_path) s))
      | Some names \<Rightarrow>
          (case long_read f w input_path names [] 0 of
             Inl e \<Rightarrow> Inl e
           | Inr None \<Rightarrow> Inr (emit [Perror ''stat failed''] (opendir_st s))
           | Inr (Some (filenames, total_size)) \<Rightarrow>
               let s1 = closedir_st (opendir_st s);
                   sorted = long_sort f w filenames
               in Inr (emit (total_line total_size #
                             concat (map (\<lambda>name. long_print f w (join_path input_path name)) sorted))
                         s1)))"

section \<open>Vocabulary of the properties\<close>

text \<open>The names of a directory that pass the test of the \<open>readdir\<close> loops.\<close>

definition listed_names :: "flags \<Rightarrow> string list \<Rightarrow> string list" where
  "listed_names f names = filter (\<lambda>d_name. \<not> skip_entry f d_name) names"

text \<open>
  The size \<open>stat\<close> reports for an entry of the listed directory, as the 64-bit value the
  first pass adds up, and as the number it stands for.
\<close>

definition entry_size :: "world \<Rightarrow> string \<Rightarrow> string \<Rightarrow> 64 word" where
  "entry_size w input_path name =
     (case stat_w w (entry_path input_path name) of
        Some file_stat \<Rightarrow> st_size file_stat
      | None \<Rightarrow> 0)"

definition entry_bytes :: "world \<Rightarrow> string \<Rightarrow> string \<Rightarrow> int" where
  "entry_bytes w input_path name =
     (case stat_w w (entry_path input_path name) of
        Some file_stat \<Rightarrow> sint (st_size file_stat)
      | None \<Rightarrow> 0)"

text \<open>
  A comparator \<open>qsort\<close> can work with: on the set \<open>S\<close>, any two elements are comparable
  and "\<open>\<le> 0\<close>" is transitive.
\<close>

definition consistent_on :: "'a set \<Rightarrow> ('a \<Rightarrow> 'a \<Rightarrow> int) \<Rightarrow> bool" where
  "consistent_on S cmp =
     ((\<forall>a\<in>S. \<forall>b\<in>S. cmp a b \<le> 0 \<or> cmp b a \<le> 0) \<and>
      (\<forall>a\<in>S. \<forall>b\<in>S. \<forall>c\<in>S. cmp a b \<le> 0 \<longrightarrow> cmp b c \<le> 0 \<longrightarrow> cmp a c \<le> 0))"

subsection \<open>Sample file systems\<close>

definition regular_file :: "64 word \<Rightarrow> int \<Rightarrow> int \<Rightarrow> int \<Rightarrow> stat_rec" where
  "regular_file sz atime mtime ctime =
     \<lparr>st_mode = 0x81A4, st_ino = 7, st_nlink = 1, st_uid = 0, st_gid = 0, st_size = sz,
      st_atime = atime, st_mtime = mtime, st_ctime = ctime\<rparr>"

definition directory_file :: stat_rec where
  "directory_file =
     \<lparr>st_mode = 0x41ED, st_ino = 2, st_nlink = 2, st_uid = 0, st_gid = 0, st_size = 4096,
      st_atime = 50, st_mtime = 50, st_ctime = 50\<rparr>"

definition symlink_file :: stat_rec where
  "symlink_file =
     \<lparr>st_mode = 0xA1FF, st_ino = 9, st_nlink = 1, st_uid = 0, st_gid = 0, st_size = 7,
      st_atime = 50, st_mtime = 50, st_ctime = 50\<rparr>"

definition start :: sys_state where
  "start = \<lparr>written = [], open_dirs = 0\<rparr>"

text \<open>
  The working directory holds \<open>a\<close>, modified last (at 200) and read first (at 100), and
  \<open>b\<close>, modified first (at 100) and read last (at 200); both changed status at 300.
\<close>

definition mtime_world :: world where
  "mtime_world =
     (let a = regular_file 10 100 200 300; b = regular_file 10 200 100 300;
          files = map_of [(''.'', directory_file), (''./.'', directory_file), (''./..'', directory_file),
                          (''a'', a), (''b'', b), (''./a'', a), (''./b'', b)]
      in \<lparr>opendir_w = map_of [(''.'', [''.'', ''..'', ''a'', ''b''])],
          stat_w = files, lstat_w = files, readlink_w = (\<lambda>p. None),
          getpwuid_w = (\<lambda>u. Some ''root''), getgrgid_w = (\<lambda>g. Some ''root''),
          localtime_w = (\<lambda>t. Some t), strftime_w = (\<lambda>t. ''Monday 01 00:00'')\<rparr>)"

text \<open>The same two files, returned by \<open>readdir\<close> in the order \<open>b\<close>, \<open>a\<close>.\<close>

definition ctime_world :: world where
  "ctime_world = mtime_world\<lparr>opendir_w := map_of [(''.'', [''.'', ''..'', ''b'', ''a''])]\<rparr>"

text \<open>The same directory, returned by \<open>readdir\<close> in the order \<open>b\<close>, \<open>..\<close>, \<open>a\<close>, \<open>.\<close>.\<close>

definition hidden_world :: world where
  "hidden_world = mtime_world\<lparr>opendir_w := map_of [(''.'', [''b'', ''..'', ''a'', ''.''])]\<rparr>"

text \<open>
  A directory \<open>d\<close> below the working directory with a dangling symbolic link \<open>a\<close> and a
  regular file \<open>b\<close> of 2048 bytes. \<open>stat\<close> follows the link and fails on \<open>d/a\<close>;
  the working directory itself has no entry \<open>a\<close> or \<open>b\<close>.
\<close>

definition dangling_world :: world where
  "dangling_world =
     (let b = regular_file 2048 100 100 100
      in \<lparr>opendir_w = map_of [(''d'', [''.'', ''..'', ''a'', ''b''])],
          stat_w = map_of [(''d'', directory_file), (''d/.'', directory_file),
                           (''d/..'', directory_file), (''d/b'', b)],
          lstat_w = map_of [(''d'', directory_file), (''d/.'', directory_file),
                            (''d/..'', directory_file), (''d/a'', symlink_file), (''d/b'', b)],
          readlink_w = map_of [(''d/a'', ''missing'')],
          getpwuid_w = (\<lambda>u. Some ''root''), getgrgid_w = (\<lambda>g. Some ''root''),
          localtime_w = (\<lambda>t. Some t), strftime_w = (\<lambda>t. ''Monday 01 00:00'')\<rparr>)"

text \<open>
  A directory \<open>d\<close> below the working directory with the regular files \<open>x\<close> (1500
  bytes, all timestamps 100) and \<open>y\<close> (1000 bytes, all timestamps 200), returned by
  \<open>readdir\<close> in the order \<open>y\<close>, \<open>x\<close>. The working directory has no entry \<open>x\<close>
  or \<open>y\<close>.
\<close>

definition elsewhere_world :: world where
  "elsewhere_world =
     (let x = regular_file 1500 100 100 100; y = regular_file 1000 200 200 200;
          files = map_of [(''.'', directory_file), (''..'', directory_file),
                          (''d'', directory_file), (''d/.'', directory_file),
                          (''d/..'', directory_file), (''d/x'', x), (''d/y'', y)]
      in \<lparr>opendir_w = map_of [(''d'', [''.'', ''..'', ''y'', ''x''])],
          stat_w = files, lstat_w = files, readlink_w = (\<lambda>p. None),
          getpwuid_w = (\<lambda>u. Some ''root''), getgrgid_w = (\<lambda>g. Some ''root''),
          localtime_w = (\<lambda>t. Some t), strftime_w = (\<lambda>t. ''Monday 01 00:00'')\<rparr>)"

text \<open>
  A directory \<open>d\<close> whose only entry is the symbolic link \<open>link\<close>. The link itself has
  size 23, the length of its target path; the target is a regular file of 2048 bytes.
\<close>

definition link_world :: world where
  "link_world =
     (let target = regular_file 2048 100 100 100;
          link = symlink_file\<lparr>st_size := 23\<rparr>
      in \<lparr>opendir_w = map_of [(''d'', [''.'', ''..'', ''link''])],
          stat_w = map_of [(''d'', directory_file), (''d/.'', directory_file),
                           (''d/..'', directory_file), (''d/link'', target),
                           (''/home/user/payload.data'', target)],
          lstat_w = map_of [(''d'', directory_file), (''d/.'', directory_file),
                            (''d/..'', directory_file), (''d/link'', link),
                            (''/home/user/payload.data'', target)],
          readlink_w = map_of [(''d/link'', ''/home/user/payload.data'')],
          getpwuid_w = (\<lambda>u. Some ''root''), getgrgid_w = (\<lambda>g. Some ''root''),
          localtime_w = (\<lambda>t. Some t), strftime_w = (\<lambda>t. ''Monday 01 00:00'')\<rparr>)"

section \<open>Auxiliary facts\<close>

subsection \<open>\<open>strcmp\<close> is a total preorder\<close>

lemma of_char_int_nonneg: "0 \<le> (of_char c :: int)"
  by (simp add: of_char_def)

lemma of_char_int_eq_iff: "(of_char c :: int) = of_char d \<longleftrightarrow> c = d"
  by (metis of_char_eq_iff)

lemma of_char_int_zero: "(of_char c :: int) = 0 \<longleftrightarrow> c = CHR 0x00"
  using of_char_int_eq_iff[of c "CHR 0x00"] by simp

lemma strcmp_antisym: "strcmp b a = - strcmp a b"
  by (induction a b rule: strcmp.induct) auto

lemma strcmp_total: "strcmp a b \<le> 0 \<or> strcmp b a \<le> 0"
  using strcmp_antisym[of a b] by linarith

lemma strcmp_trans: "strcmp a b \<le> 0 \<Longrightarrow> strcmp b c \<le> 0 \<Longrightarrow> strcmp a c \<le> 0"
proof (induction a b arbitrary: c rule: strcmp.induct)
  case 1
  then show ?case by simp
next
  case (2 d ds)
  then show ?case by (cases c) (auto simp: of_char_int_nonneg)
next
  case (3 c' cs)
  then show ?case using of_char_int_nonneg[of c'] 
    by (cases c) (auto simp: of_char_int_zero  split: if_splits)
next
  case (4 x xs y ys)
  show ?case
  proof (cases c)
    case Nil
    with 4 show ?thesis using of_char_int_nonneg[of x] of_char_int_nonneg[of y]
      by (auto simp: of_char_int_zero split: if_splits)
  next
    case (Cons z zs)
    show ?thesis
    proof (cases "x = y")
      case xy: True
      show ?thesis
      proof (cases "x = CHR 0x00")
        case True
        with xy Cons "4.prems"(2) show ?thesis by (simp split: if_splits)
      next
        case nz: False
        with xy "4.prems"(1) have le1: "strcmp xs ys \<le> 0" by simp
        show ?thesis
        proof (cases "y = z")
          case True
          with xy nz Cons "4.prems"(2) have "strcmp ys zs \<le> 0" by simp
          with "4.IH"[OF xy nz le1] have "strcmp xs zs \<le> 0" .
          with xy nz True Cons show ?thesis by simp
        next
          case False
          with xy Cons "4.prems"(2) show ?thesis by simp
        qed
      qed
    next
      case nxy: False
      with "4.prems"(1) have lt1: "(of_char x :: int) < of_char y"
        by (simp add: less_le)
      show ?thesis
      proof (cases "y = z")
        case True
        with nxy lt1 Cons show ?thesis by simp
      next
        case False
        with Cons "4.prems"(2) have "(of_char y :: int) < of_char z"
          by (simp add: less_le)
        with lt1 have lt: "(of_char x :: int) < of_char z" by linarith
        then have "x \<noteq> z" by auto
        with lt Cons show ?thesis by simp
      qed
    qed
  qed
qed

subsection \<open>\<open>qsort\<close> permutes, and sorts under a consistent comparator\<close>

lemma mset_qsort_merge: "mset (qsort_merge cmp xs ys) = mset xs + mset ys"
  by (induction cmp xs ys rule: qsort_merge.induct) auto

lemma set_qsort_merge: "set (qsort_merge cmp xs ys) = set xs \<union> set ys"
  using mset_qsort_merge[of cmp xs ys] by (metis set_mset_mset set_mset_union)

lemma mset_qsort: "mset (qsort cmp xs) = mset xs"
proof (induction cmp xs rule: qsort.induct)
  case (1 cmp xs)
  show ?case
  proof (cases "length xs \<le> 1")
    case True
    then show ?thesis by (simp add: qsort.simps[of cmp xs])
  next
    case False
    with 1 have "mset (qsort cmp xs) =
        mset (take (length xs div 2) xs) + mset (drop (length xs div 2) xs)"
      by (simp add: qsort.simps[of cmp xs] mset_qsort_merge)
    also have "\<dots> = mset xs"
      by (metis append_take_drop_id mset_append)
    finally show ?thesis .
  qed
qed

lemma set_qsort: "set (qsort cmp xs) = set xs"
  using mset_qsort[of cmp xs] by (metis set_mset_mset)

lemma ascending_qsort_merge:
  "consistent_on S cmp \<Longrightarrow> set xs \<subseteq> S \<Longrightarrow> set ys \<subseteq> S \<Longrightarrow>
   ascending cmp xs \<Longrightarrow> ascending cmp ys \<Longrightarrow> ascending cmp (qsort_merge cmp xs ys)"
proof (induction cmp xs ys rule: qsort_merge.induct)
  case (1 cmp ys)
  then show ?case by simp
next
  case (2 cmp x xs)
  then show ?case by simp
next
  case (3 cmp x xs y ys)
  have tot: "\<And>a b. a \<in> S \<Longrightarrow> b \<in> S \<Longrightarrow> cmp a b \<le> 0 \<or> cmp b a \<le> 0"
    using "3.prems"(1) unfolding consistent_on_def by blast
  have tr: "\<And>a b c. a \<in> S \<Longrightarrow> b \<in> S \<Longrightarrow> c \<in> S \<Longrightarrow> cmp a b \<le> 0 \<Longrightarrow> cmp b c \<le> 0 \<Longrightarrow> cmp a c \<le> 0"
    using "3.prems"(1) unfolding consistent_on_def by blast
  have xS: "x \<in> S" and yS: "y \<in> S" and xsS: "set xs \<subseteq> S" and ysS: "set ys \<subseteq> S"
    using "3.prems"(2,3) by auto
  have ax: "\<forall>z\<in>set xs. cmp x z \<le> 0" and axs: "ascending cmp xs"
    using "3.prems"(4) by (auto simp: ascending_def)
  have ay: "\<forall>z\<in>set ys. cmp y z \<le> 0" and ays: "ascending cmp ys"
    using "3.prems"(5) by (auto simp: ascending_def)
  show ?case
  proof (cases "cmp x y \<le> 0")
    case True
    have rest: "ascending cmp (qsort_merge cmp xs (y # ys))"
      using "3.IH"(1)[OF True "3.prems"(1) xsS "3.prems"(3) axs "3.prems"(5)] .
    have "\<forall>z\<in>set ys. cmp x z \<le> 0"
      using tr[OF xS yS _ True] ay ysS by blast
    with ax True have "\<forall>z\<in>set (qsort_merge cmp xs (y # ys)). cmp x z \<le> 0"
      by (auto simp: set_qsort_merge)
    with rest True show ?thesis by (simp add: ascending_def)
  next
    case False
    then have yx: "cmp y x \<le> 0" using tot[OF xS yS] by blast
    have rest: "ascending cmp (qsort_merge cmp (x # xs) ys)"
      using "3.IH"(2)[OF False "3.prems"(1) "3.prems"(2) ysS "3.prems"(4) ays] .
    have "\<forall>z\<in>set xs. cmp y z \<le> 0"
      using tr[OF yS xS _ yx] ax xsS by blast
    with ay yx have "\<forall>z\<in>set (qsort_merge cmp (x # xs) ys). cmp y z \<le> 0"
      by (auto simp: set_qsort_merge)
    with rest False show ?thesis by (simp add: ascending_def)
  qed
qed

lemma ascending_qsort:
  "consistent_on S cmp \<Longrightarrow> set xs \<subseteq> S \<Longrightarrow> ascending cmp (qsort cmp xs)"
proof (induction cmp xs rule: qsort.induct)
  case (1 cmp xs)
  show ?case
  proof (cases "length xs \<le> 1")
    case True
    then have "xs = [] \<or> (\<exists>x. xs = [x])"
      by (cases xs) auto
    then show ?thesis by (auto simp: qsort.simps[of cmp xs] ascending_def)
  next
    case False
    let ?l = "take (length xs div 2) xs" and ?r = "drop (length xs div 2) xs"
    have l: "set ?l \<subseteq> S" using "1.prems"(2) by (meson set_take_subset subset_trans)
    have r: "set ?r \<subseteq> S" using "1.prems"(2) by (meson set_drop_subset subset_trans)
    have al: "ascending cmp (qsort cmp ?l)" using "1.IH"(1)[OF False "1.prems"(1) l] .
    have ar: "ascending cmp (qsort cmp ?r)" using "1.IH"(2)[OF False "1.prems"(1) r] .
    have "ascending cmp (qsort_merge cmp (qsort cmp ?l) (qsort cmp ?r))"
      using ascending_qsort_merge[OF "1.prems"(1) _ _ al ar] l r by (simp add: set_qsort)
    with False show ?thesis by (simp add: qsort.simps[of cmp xs])
  qed
qed

subsection \<open>64-bit sizes and the two reading loops\<close>

lemma sint_small: "0 \<le> x \<Longrightarrow> x < 2 ^ 63 \<Longrightarrow> sint (word_of_int x :: 64 word) = x"
  by (simp add: signed_of_int signed_take_bit_int_eq_self)

lemma entry_size_bytes: "entry_size w p n = word_of_int (entry_bytes w p n)"
  by (simp add: entry_size_def entry_bytes_def split: option.splits)

lemma sum_entry_size:
  "sum_list (map (entry_size w p) ns) = word_of_int (sum_list (map (entry_bytes w p) ns))"
  by (induction ns) (simp_all add: entry_size_bytes)

lemma long_div_small:
  assumes "0 \<le> x" "x < 2 ^ 63"
  shows "long_div (word_of_int x) 1024 = word_of_int (x div 1024)"
proof -
  have "x sdiv 1024 = x div 1024"
    using assms(1) by (simp add: signed_divide_int_def sgn_if)
  then show ?thesis
    using assms by (simp add: long_div_def sint_small)
qed

lemma show_ld_small:
  assumes "0 \<le> x" "x < 2 ^ 63"
  shows "show_ld (word_of_int x) = show_nat (nat x)"
  using assms by (simp add: show_ld_def sint_small)

lemma total_line_small:
  assumes "0 \<le> x" "x < 2 ^ 63"
  shows "total_line (word_of_int x) = Stdout (''total '' @ show_nat (nat (x div 1024)) @ newline)"
proof -
  have "0 \<le> x div 1024" using assms(1) by simp
  moreover have "x div 1024 < 2 ^ 63" using assms by (simp add: div_less_iff_less_mult)
  ultimately show ?thesis
    using assms by (simp add: total_line_def long_div_small show_ld_small)
qed

lemma do_ls_read_listed:
  "length acc \<le> MAX_ENTRIES \<Longrightarrow>
   do_ls_read f names acc =
     (if length acc + length (listed_names f names) \<le> MAX_ENTRIES
      then Inr (acc @ listed_names f names) else Inl Array_overflow)"
proof (induction names arbitrary: acc)
  case Nil
  then show ?case by (simp add: listed_names_def)
next
  case (Cons d ds)
  show ?case
  proof (cases "skip_entry f d")
    case True
    with Cons show ?thesis by (simp add: listed_names_def)
  next
    case keep: False
    show ?thesis
    proof (cases "MAX_ENTRIES \<le> length acc")
      case True
      with keep show ?thesis by (simp add: listed_names_def)
    next
      case False
      then have "length (acc @ [d]) \<le> MAX_ENTRIES" by simp
      from Cons.IH[OF this] keep False show ?thesis by (simp add: listed_names_def)
    qed
  qed
qed

lemma long_read_listed:
  "length acc \<le> 1024 \<Longrightarrow>
   \<forall>n\<in>set (listed_names f names). stat_w w (entry_path p n) \<noteq> None \<Longrightarrow>
   long_read f w p names acc tot =
     (if length acc + length (listed_names f names) \<le> 1024
      then Inr (Some (acc @ listed_names f names,
                      tot + sum_list (map (entry_size w p) (listed_names f names))))
      else Inl Array_overflow)"
proof (induction names arbitrary: acc tot)
  case Nil
  then show ?case by (simp add: listed_names_def)
next
  case (Cons d ds)
  show ?case
  proof (cases "skip_entry f d")
    case True
    with Cons show ?thesis by (simp add: listed_names_def)
  next
    case keep: False
    then obtain st where st: "stat_w w (entry_path p d) = Some st"
      using Cons.prems(2) by (auto simp: listed_names_def)
    have rest: "\<forall>n\<in>set (listed_names f ds). stat_w w (entry_path p n) \<noteq> None"
      using Cons.prems(2) by (simp add: listed_names_def)
    show ?thesis
    proof (cases "1024 \<le> length acc")
      case True
      with keep show ?thesis by (simp add: listed_names_def)
    next
      case False
      then have "length (acc @ [d]) \<le> 1024" by simp
      moreover have "entry_size w p d = st_size st"
        using st by (simp add: entry_size_def)
      ultimately show ?thesis
        using Cons.IH[OF _ rest, of "acc @ [d]" "tot + st_size st"] keep False st
        by (simp add: listed_names_def add.assoc)
    qed
  qed
qed

subsection \<open>The permission buffer, position by position\<close>

lemma overwrite_if:
  fixes a :: char
  shows "(if c0 then [a,b,c,d,e,f,g,h,i][0 := v] else [a,b,c,d,e,f,g,h,i]) = [if c0 then v else a,b,c,d,e,f,g,h,i]"
    and "(if c0 then [a,b,c,d,e,f,g,h,i][1 := v] else [a,b,c,d,e,f,g,h,i]) = [a,if c0 then v else b,c,d,e,f,g,h,i]"
    and "(if c0 then [a,b,c,d,e,f,g,h,i][2 := v] else [a,b,c,d,e,f,g,h,i]) = [a,b,if c0 then v else c,d,e,f,g,h,i]"
    and "(if c0 then [a,b,c,d,e,f,g,h,i][3 := v] else [a,b,c,d,e,f,g,h,i]) = [a,b,c,if c0 then v else d,e,f,g,h,i]"
    and "(if c0 then [a,b,c,d,e,f,g,h,i][4 := v] else [a,b,c,d,e,f,g,h,i]) = [a,b,c,d,if c0 then v else e,f,g,h,i]"
    and "(if c0 then [a,b,c,d,e,f,g,h,i][5 := v] else [a,b,c,d,e,f,g,h,i]) = [a,b,c,d,e,if c0 then v else f,g,h,i]"
    and "(if c0 then [a,b,c,d,e,f,g,h,i][6 := v] else [a,b,c,d,e,f,g,h,i]) = [a,b,c,d,e,f,if c0 then v else g,h,i]"
    and "(if c0 then [a,b,c,d,e,f,g,h,i][7 := v] else [a,b,c,d,e,f,g,h,i]) = [a,b,c,d,e,f,g,if c0 then v else h,i]"
    and "(if c0 then [a,b,c,d,e,f,g,h,i][8 := v] else [a,b,c,d,e,f,g,h,i]) = [a,b,c,d,e,f,g,h,if c0 then v else i]"
  by (simp_all add: numeral_eq_Suc)

lemma nine_dashes: "''---------'' = [CHR ''-'', CHR ''-'', CHR ''-'', CHR ''-'', CHR ''-'', CHR ''-'', CHR ''-'', CHR ''-'', CHR ''-'']"
  by simp

lemma permission_string_positions:
  "permission_string mode =
     [if mode AND S_IRUSR \<noteq> 0 then CHR ''r'' else CHR ''-'',
      if mode AND S_IWUSR \<noteq> 0 then CHR ''w'' else CHR ''-'',
      if mode AND S_IXUSR \<noteq> 0 then (if mode AND S_ISUID \<noteq> 0 then CHR ''s'' else CHR ''x'') else CHR ''-'',
      if mode AND S_IRGRP \<noteq> 0 then CHR ''r'' else CHR ''-'',
      if mode AND S_IWGRP \<noteq> 0 then CHR ''w'' else CHR ''-'',
      if mode AND S_IXGRP \<noteq> 0 then (if mode AND S_ISGID \<noteq> 0 then CHR ''s'' else CHR ''x'') else CHR ''-'',
      if mode AND S_IROTH \<noteq> 0 then CHR ''r'' else CHR ''-'',
      if mode AND S_IWOTH \<noteq> 0 then CHR ''w'' else CHR ''-'',
      if mode AND S_IXOTH \<noteq> 0 then (if mode AND S_ISVTX \<noteq> 0 then CHR ''t'' else CHR ''x'') else CHR ''-'']"
  unfolding permission_string_def Let_def
  by (simp only: overwrite_if)

lemmas mode_bits = S_IRUSR_def S_IWUSR_def S_IXUSR_def S_IRGRP_def S_IWGRP_def S_IXGRP_def
        S_IROTH_def S_IWOTH_def S_IXOTH_def S_ISUID_def S_ISGID_def S_ISVTX_def

subsection \<open>The comparators that are consistent\<close>

lemma consistent_case_insensitive: "consistent_on S compare_case_insensitive"
  unfolding consistent_on_def compare_case_insensitive_def
  using strcmp_total strcmp_trans by blast

lemma consistent_access_time:
  assumes "\<forall>n\<in>S. stat_w w n \<noteq> None"
  shows "consistent_on S (compare_by_access_time w)"
proof -
  have tot: "compare_by_access_time w a b \<le> 0 \<or> compare_by_access_time w b a \<le> 0"
    if aS: "a \<in> S" and bS: "b \<in> S" for a b
  proof -
    obtain sa sb where "stat_w w a = Some sa" "stat_w w b = Some sb"
      using assms aS bS by (meson not_Some_eq)
    then show ?thesis
      using strcmp_total[of a b] by (auto simp: compare_by_access_time_def)
  qed
  have tr: "compare_by_access_time w a c \<le> 0"
    if aS: "a \<in> S" and bS: "b \<in> S" and cS: "c \<in> S"
      and ab: "compare_by_access_time w a b \<le> 0" and bc: "compare_by_access_time w b c \<le> 0"
    for a b c
  proof -
    obtain sa sb sc where st: "stat_w w a = Some sa" "stat_w w b = Some sb" "stat_w w c = Some sc"
      using assms aS bS cS by (meson not_Some_eq)
    from ab st have 1: "st_atime sb < st_atime sa \<or> (st_atime sa = st_atime sb \<and> strcmp a b \<le> 0)"
      by (auto simp: compare_by_access_time_def split: if_splits)
    from bc st have 2: "st_atime sc < st_atime sb \<or> (st_atime sb = st_atime sc \<and> strcmp b c \<le> 0)"
      by (auto simp: compare_by_access_time_def split: if_splits)
    from 1 2 have "st_atime sc < st_atime sa \<or> (st_atime sa = st_atime sc \<and> strcmp a c \<le> 0)"
      using strcmp_trans[of a b c] by auto
    with st show ?thesis by (auto simp: compare_by_access_time_def)
  qed
  show ?thesis unfolding consistent_on_def using tot tr by blast
qed

lemma consistent_ctime:
  assumes "\<forall>n\<in>S. stat_w w n \<noteq> None"
  shows "consistent_on S (compare_by_ctime w)"
proof -
  have tot: "compare_by_ctime w a b \<le> 0 \<or> compare_by_ctime w b a \<le> 0"
    if aS: "a \<in> S" and bS: "b \<in> S" for a b
  proof -
    obtain sa sb where "stat_w w a = Some sa" "stat_w w b = Some sb"
      using assms aS bS by (meson not_Some_eq)
    then show ?thesis by (auto simp: compare_by_ctime_def)
  qed
  have tr: "compare_by_ctime w a c \<le> 0"
    if aS: "a \<in> S" and bS: "b \<in> S" and cS: "c \<in> S"
      and ab: "compare_by_ctime w a b \<le> 0" and bc: "compare_by_ctime w b c \<le> 0"
    for a b c
  proof -
    obtain sa sb sc where st: "stat_w w a = Some sa" "stat_w w b = Some sb" "stat_w w c = Some sc"
      using assms aS bS cS by (meson not_Some_eq)
    from ab st have 1: "st_ctime sb \<le> st_ctime sa"
      by (auto simp: compare_by_ctime_def split: if_splits)
    from bc st have 2: "st_ctime sc \<le> st_ctime sb"
      by (auto simp: compare_by_ctime_def split: if_splits)
    from 1 2 st show ?thesis by (auto simp: compare_by_ctime_def)
  qed
  show ?thesis unfolding consistent_on_def using tot tr by blast
qed

subsection \<open>The two listing routines on a directory\<close>

lemma mset_do_ls_sort: "mset (do_ls_sort f w names) = mset names"
  by (simp add: do_ls_sort_def mset_qsort)

lemma mset_long_sort: "mset (long_sort f w names) = mset names"
  by (simp add: long_sort_def mset_qsort)

lemma do_ls_directory:
  assumes "opendir_w w input_path = Some names"
  shows "do_ls f w input_path s =
           (if length (listed_names f names) \<le> MAX_ENTRIES
            then Inr (emit (concat (map (\<lambda>name. do_ls_print f w (entry_path input_path name))
                                        (do_ls_sort f w (listed_names f names)))
                            @ (if \<not> is_column_output_enabled f then [Stdout newline] else []))
                       (closedir_st (opendir_st s)))
            else Inl Array_overflow)"
  using assms do_ls_read_listed[of "[]" f names]
  by (simp add: do_ls_def Let_def)

lemma long_directory:
  assumes "opendir_w w input_path = Some names"
    and "\<forall>n\<in>set (listed_names f names). stat_w w (entry_path input_path n) \<noteq> None"
  shows "list_directory_long_format f w input_path s =
           (if length (listed_names f names) \<le> 1024
            then Inr (emit (total_line (sum_list (map (entry_size w input_path) (listed_names f names)))
                            # concat (map (\<lambda>name. long_print f w (join_path input_path name))
                                          (long_sort f w (listed_names f names))))
                       (closedir_st (opendir_st s)))
            else Inl Array_overflow)"
  using assms(1) long_read_listed[OF _ assms(2), of "[]" 0]
  by (simp add: list_directory_long_format_def Let_def)

text \<open>\<open>do_ls\<close> holds no directory handle when it returns.\<close>

lemma do_ls_closes: "do_ls f w input_path s = Inr s' \<Longrightarrow> open_dirs s' = open_dirs s"
  by (auto simp: do_ls_def Let_def emit_def closedir_st_def opendir_st_def
           split: option.splits sum.splits if_splits)

text \<open>
  The \<open>total\<close> line in terms of what the first pass adds up: when \<open>stat\<close> succeeds on
  every kept name with a size that is not negative, and the sum of these sizes fits a
  \<open>long\<close>, the line shows that sum divided by 1024, rounded down.
\<close>

lemma total_line_of_stat_sizes:
  assumes "opendir_w w input_path = Some names"
    and "length (listed_names f names) \<le> 1024"
    and "\<forall>n\<in>set (listed_names f names).
           stat_w w (entry_path input_path n) \<noteq> None \<and> 0 \<le> entry_bytes w input_path n"
    and "sum_list (map (entry_bytes w input_path) (listed_names f names)) < 2 ^ 63"
  shows "map_sum id written (list_directory_long_format f w input_path s) =
           Inr (written s @
                Stdout (''total '' @
                        show_nat (nat (sum_list (map (entry_bytes w input_path) (listed_names f names)) div 1024))
                        @ newline)
                # concat (map (\<lambda>name. long_print f w (join_path input_path name))
                              (long_sort f w (listed_names f names))))
       \<and> sum_list (map (entry_bytes w input_path) (listed_names f names)) div 1024
           = sum_list (map (entry_bytes w input_path) (listed_names f names)) sdiv 1024"
proof -
  let ?S = "sum_list (map (entry_bytes w input_path) (listed_names f names))"
  have nonneg: "0 \<le> ?S"
    using assms(3) by (intro sum_list_nonneg) auto
  have stats: "\<forall>n\<in>set (listed_names f names). stat_w w (entry_path input_path n) \<noteq> None"
    using assms(3) by blast
  have tl: "total_line (sum_list (map (entry_size w input_path) (listed_names f names)))
              = Stdout (''total '' @ show_nat (nat (?S div 1024)) @ newline)"
    using total_line_small[OF nonneg assms(4)] by (simp add: sum_entry_size)
  have "list_directory_long_format f w input_path s =
          Inr (emit (Stdout (''total '' @ show_nat (nat (?S div 1024)) @ newline)
                     # concat (map (\<lambda>name. long_print f w (join_path input_path name))
                                   (long_sort f w (listed_names f names))))
                 (closedir_st (opendir_st s)))"
    using long_directory[OF assms(1) stats, of s] assms(2) tl by simp
  then have out: "map_sum id written (list_directory_long_format f w input_path s) =
           Inr (written s @
                Stdout (''total '' @ show_nat (nat (?S div 1024)) @ newline)
                # concat (map (\<lambda>name. long_print f w (join_path input_path name))
                              (long_sort f w (listed_names f names))))"
    by (simp add: emit_def closedir_st_def opendir_st_def)
  have "?S div 1024 = ?S sdiv 1024"
    using nonneg by (simp add: signed_divide_int_def sgn_if)
  with out show ?thesis by blast
qed

section \<open>The claims\<close>

text \<open>
  C1. With the option for sorting by modification time set (and sorting not disabled), the
  entries of a listed directory should come newest first by modification time. The
  program does otherwise: case \<open>t\<close> of the option switch falls through into case \<open>u\<close>,
  and \<open>do_ls\<close> then sorts with \<open>compare_by_access_time\<close>, which reads \<open>st_atime\<close>.
  In the sample directory \<open>b\<close> (modified at 100) is printed before \<open>a\<close> (modified at
  200).
\<close>

theorem sort_by_time_orders_by_access_time:
  "map_sum id written (do_ls (parse_options ''t'') mtime_world ''.'' start)
     = Inr [Stdout ''b   '', Stdout ''a   '', Stdout newline]
   \<and> map_option st_mtime (stat_w mtime_world ''b'') = Some 100
   \<and> map_option st_mtime (stat_w mtime_world ''a'') = Some 200"
  by code_simp

text \<open>
  C2. A failing \<open>stat\<close> on one entry should skip that entry only, with a diagnostic, and
  leave its siblings listed. In the first pass of \<open>list_directory_long_format\<close> the
  failure runs into a \<open>return\<close>: for the directory with the dangling link \<open>a\<close> and the
  regular file \<open>b\<close> the routine writes the diagnostic and nothing else, neither the
  \<open>total\<close> line nor a line for \<open>b\<close>.
\<close>

theorem stat_failure_aborts_long_listing:
  "map_sum id written (list_directory_long_format (parse_options ''l'') dangling_world ''d'' start)
     = Inr [Perror ''stat failed'']
   \<and> stat_w dangling_world ''d/a'' = None
   \<and> stat_w dangling_world ''d/b'' \<noteq> None"
  by code_simp

text \<open>
  C3, as stated, fails for the change-time sort: \<open>compare_by_ctime\<close> returns 0 for two
  entries with equal change times and never looks at their names. In the sample directory
  \<open>b\<close> and \<open>a\<close> have the same change time and are printed in the order \<open>readdir\<close>
  returned them, \<open>b\<close> first.
\<close>

theorem ctime_ties_counterexample:
  "map_option st_ctime (stat_w ctime_world ''b'') = map_option st_ctime (stat_w ctime_world ''a'')
   \<and> 0 < strcmp ''b'' ''a''
   \<and> compare_by_ctime ctime_world ''b'' ''a'' = 0
   \<and> map_sum id written (do_ls (parse_options ''c'') ctime_world ''.'' start)
       = Inr [Stdout ''b   '', Stdout ''a   '', Stdout newline]"
  by code_simp

text \<open>
  C3, amended. When \<open>stat\<close> succeeds on both names, the access-time comparator puts the
  entry with the later access time first and compares two entries with equal access times
  by \<open>strcmp\<close> of their names; the change-time comparator puts the entry with the later
  change time first and reports two entries with equal change times as equal. When
  \<open>stat\<close> succeeds on every name of a list, both comparators are consistent there, so
  the sorted list is ascending for the comparator.
\<close>

theorem time_comparators_order:
  assumes "stat_w w a = Some sa" and "stat_w w b = Some sb"
  shows "(st_atime sb < st_atime sa \<longrightarrow> compare_by_access_time w a b < 0)
       \<and> (st_atime sa < st_atime sb \<longrightarrow> 0 < compare_by_access_time w a b)
       \<and> (st_atime sa = st_atime sb \<longrightarrow> compare_by_access_time w a b = strcmp a b)
       \<and> (st_ctime sb < st_ctime sa \<longrightarrow> compare_by_ctime w a b < 0)
       \<and> (st_ctime sa < st_ctime sb \<longrightarrow> 0 < compare_by_ctime w a b)
       \<and> (st_ctime sa = st_ctime sb \<longrightarrow> compare_by_ctime w a b = 0)
       \<and> ((\<forall>n\<in>set names. stat_w w n \<noteq> None) \<longrightarrow>
            ascending (compare_by_access_time w) (qsort (compare_by_access_time w) names)
          \<and> ascending (compare_by_ctime w) (qsort (compare_by_ctime w) names))"
proof -
  have cmp: "(st_atime sb < st_atime sa \<longrightarrow> compare_by_access_time w a b < 0)
       \<and> (st_atime sa < st_atime sb \<longrightarrow> 0 < compare_by_access_time w a b)
       \<and> (st_atime sa = st_atime sb \<longrightarrow> compare_by_access_time w a b = strcmp a b)
       \<and> (st_ctime sb < st_ctime sa \<longrightarrow> compare_by_ctime w a b < 0)
       \<and> (st_ctime sa < st_ctime sb \<longrightarrow> 0 < compare_by_ctime w a b)
       \<and> (st_ctime sa = st_ctime sb \<longrightarrow> compare_by_ctime w a b = 0)"
    using assms by (simp add: compare_by_access_time_def compare_by_ctime_def)
  have srt: "ascending (compare_by_access_time w) (qsort (compare_by_access_time w) names)
          \<and> ascending (compare_by_ctime w) (qsort (compare_by_ctime w) names)"
    if "\<forall>n\<in>set names. stat_w w n \<noteq> None"
    using ascending_qsort[OF consistent_access_time[OF that] subset_refl]
          ascending_qsort[OF consistent_ctime[OF that] subset_refl] by simp
  show ?thesis using cmp srt by blast
qed

theorem time_comparators_order_witness:
  "stat_w mtime_world ''a'' = Some (regular_file 10 100 200 300)
   \<and> stat_w mtime_world ''b'' = Some (regular_file 10 200 100 300)
   \<and> 0 < compare_by_access_time mtime_world ''a'' ''b''
   \<and> compare_by_access_time mtime_world ''b'' ''a'' < 0
   \<and> compare_by_access_time mtime_world ''a'' ''a'' = strcmp ''a'' ''a''
   \<and> compare_by_ctime mtime_world ''a'' ''b'' = 0
   \<and> stat_w elsewhere_world ''d/x'' = Some (regular_file 1500 100 100 100)
   \<and> stat_w elsewhere_world ''d/y'' = Some (regular_file 1000 200 200 200)
   \<and> 0 < compare_by_ctime elsewhere_world ''d/x'' ''d/y''
   \<and> compare_by_ctime elsewhere_world ''d/y'' ''d/x'' < 0
   \<and> ascending (compare_by_access_time mtime_world)
         (qsort (compare_by_access_time mtime_world) [''a'', ''b''])
   \<and> ascending (compare_by_ctime mtime_world)
         (qsort (compare_by_ctime mtime_world) [''a'', ''b''])"
proof -
  have a: "stat_w mtime_world ''a'' = Some (regular_file 10 100 200 300)"
    by code_simp
  have b: "stat_w mtime_world ''b'' = Some (regular_file 10 200 100 300)"
    by code_simp
  have x: "stat_w elsewhere_world ''d/x'' = Some (regular_file 1500 100 100 100)"
    by code_simp
  have y: "stat_w elsewhere_world ''d/y'' = Some (regular_file 1000 200 200 200)"
    by code_simp
  have all: "\<forall>n\<in>set [''a'', ''b'']. stat_w mtime_world n \<noteq> None"
    by code_simp
  show ?thesis
    using time_comparators_order[OF a b, of "[''a'', ''b'']"]
          time_comparators_order[OF b a, of "[''a'', ''b'']"]
          time_comparators_order[OF a a, of "[''a'', ''b'']"]
          time_comparators_order[OF x y, of "[]"]
          time_comparators_order[OF y x, of "[]"]
          a b x y all
    by (simp add: regular_file_def)
qed

text \<open>
  C4. The hidden-first comparator should be a consistent ordering that puts \<open>.\<close> first
  and \<open>..\<close> second. \<open>compare_with_hidden\<close> answers \<open>-1\<close> as soon as its first argument
  is \<open>.\<close> or \<open>..\<close>, whatever the second is: it ranks \<open>..\<close> before \<open>.\<close> and \<open>.\<close>
  before \<open>..\<close>, and \<open>.\<close> before itself. When \<open>readdir\<close> returns \<open>b\<close>, \<open>..\<close>,
  \<open>a\<close>, \<open>.\<close> the sorted order starts with \<open>..\<close>.
\<close>

theorem compare_with_hidden_inconsistent:
  "compare_with_hidden ''..'' ''.'' = - 1
   \<and> compare_with_hidden ''.'' ''..'' = - 1
   \<and> compare_with_hidden ''.'' ''.'' = - 1
   \<and> do_ls_sort (parse_options ''a'') hidden_world
         (listed_names (parse_options ''a'') [''b'', ''..'', ''a'', ''.''])
       = [''..'', ''.'', ''a'', ''b'']"
  by code_simp

text \<open>
  C5, as stated, fails when hidden files are shown: with the options \<open>l\<close> and \<open>a\<close> no
  time-based sort applies and sorting is not disabled, yet the long listing sorts with
  \<open>compare_with_hidden\<close>, which compares bytes as they are: \<open>Banana\<close>, \<open>Cherry\<close>,
  \<open>apple\<close>.
\<close>

theorem long_default_order_counterexample:
  "\<not> is_sort_by_time_enabled (parse_options ''la'')
   \<and> \<not> is_sort_by_access_time_enabled (parse_options ''la'')
   \<and> \<not> is_ctime_option_enabled (parse_options ''la'')
   \<and> \<not> is_no_sort_enabled (parse_options ''la'')
   \<and> long_sort (parse_options ''la'') mtime_world [''Banana'', ''apple'', ''Cherry'']
       = [''Banana'', ''Cherry'', ''apple'']"
  by code_simp

text \<open>
  C5, amended. In the long listing, when no time-based sort applies (none of the three
  flags for sorting by time is set), sorting is not disabled and hidden files are not
  shown, the names are sorted with \<open>compare_case_insensitive\<close> (\<open>strcmp\<close> of the two
  names folded to lower case, no rule for hidden names): the result is a permutation of
  the names, ascending for that comparator, and \<open>Banana\<close>, \<open>apple\<close>, \<open>Cherry\<close> come
  out as \<open>apple\<close>, \<open>Banana\<close>, \<open>Cherry\<close>. When hidden files are shown instead, the
  names are sorted with \<open>compare_with_hidden\<close>.
\<close>

theorem long_default_order:
  "(\<not> is_hidden_files_enabled f
    \<and> \<not> is_sort_by_time_enabled f \<and> \<not> is_sort_by_access_time_enabled f
    \<and> \<not> is_ctime_option_enabled f \<and> \<not> is_no_sort_enabled f \<longrightarrow>
      long_sort f w names = qsort compare_case_insensitive names
      \<and> ascending compare_case_insensitive (long_sort f w names)
      \<and> mset (long_sort f w names) = mset names
      \<and> long_sort f w [''Banana'', ''apple'', ''Cherry''] = [''apple'', ''Banana'', ''Cherry''])
   \<and> (is_hidden_files_enabled f
       \<and> \<not> is_sort_by_time_enabled f \<and> \<not> is_sort_by_access_time_enabled f
       \<and> \<not> is_ctime_option_enabled f \<and> \<not> is_no_sort_enabled f \<longrightarrow>
      long_sort f w names = qsort compare_with_hidden names)"
proof -
  have ex: "qsort compare_case_insensitive [''Banana'', ''apple'', ''Cherry''] = [''apple'', ''Banana'', ''Cherry'']"
    by code_simp
  have "ascending compare_case_insensitive (qsort compare_case_insensitive names)"
    using ascending_qsort[OF consistent_case_insensitive subset_refl] .
  then show ?thesis
    using ex by (simp add: long_sort_def mset_qsort)
qed

theorem long_default_order_witness:
  "\<not> is_hidden_files_enabled (parse_options ''l'')
   \<and> \<not> is_sort_by_time_enabled (parse_options ''l'')
   \<and> \<not> is_sort_by_access_time_enabled (parse_options ''l'')
   \<and> \<not> is_ctime_option_enabled (parse_options ''l'')
   \<and> \<not> is_no_sort_enabled (parse_options ''l'')
   \<and> long_sort (parse_options ''l'') mtime_world [''Banana'', ''apple'', ''Cherry'']
       = [''apple'', ''Banana'', ''Cherry'']
   \<and> is_hidden_files_enabled (parse_options ''la'')
   \<and> \<not> is_sort_by_time_enabled (parse_options ''la'')
   \<and> \<not> is_sort_by_access_time_enabled (parse_options ''la'')
   \<and> \<not> is_ctime_option_enabled (parse_options ''la'')
   \<and> \<not> is_no_sort_enabled (parse_options ''la'')
   \<and> long_sort (parse_options ''la'') mtime_world [''b'', ''a'']
       = qsort compare_with_hidden [''b'', ''a'']"
proof -
  have h: "\<not> is_hidden_files_enabled (parse_options ''l'')
      \<and> \<not> is_sort_by_time_enabled (parse_options ''l'')
      \<and> \<not> is_sort_by_access_time_enabled (parse_options ''l'')
      \<and> \<not> is_ctime_option_enabled (parse_options ''l'')
      \<and> \<not> is_no_sort_enabled (parse_options ''l'')" by code_simp
  have h2: "is_hidden_files_enabled (parse_options ''la'')
      \<and> \<not> is_sort_by_time_enabled (parse_options ''la'')
      \<and> \<not> is_sort_by_access_time_enabled (parse_options ''la'')
      \<and> \<not> is_ctime_option_enabled (parse_options ''la'')
      \<and> \<not> is_no_sort_enabled (parse_options ''la'')" by code_simp
  show ?thesis
    using long_default_order[of "parse_options ''l''" mtime_world "[''Banana'', ''apple'', ''Cherry'']"]
          long_default_order[of "parse_options ''la''" mtime_world "[''b'', ''a'']"] h h2
    by blast
qed

text \<open>
  C6. Every directory handle should be closed on every way out of a listing routine. The
  \<open>return\<close> taken in the first pass of \<open>list_directory_long_format\<close> when \<open>stat\<close>
  fails comes before \<open>closedir\<close>: on the directory with the dangling link the routine
  returns with one handle still open.
\<close>

theorem stat_failure_leaves_directory_open:
  "map_sum id open_dirs (list_directory_long_format (parse_options ''l'') dangling_world ''d'' start)
     = Inr 1
   \<and> open_dirs start = 0"
  by code_simp

text \<open>
  C7. A name returned by \<open>readdir\<close> is left out of the listing exactly when it starts
  with a dot while both the flag for hidden files and the flag for no sorting are unset;
  with no sorting, every name is kept. \<open>do_ls\<close> prints each kept name once, in the order
  its sort gives; so does \<open>list_directory_long_format\<close> when \<open>stat\<close> succeeds on the
  kept names. (More kept names than the array of entries holds is a fault.)
\<close>

theorem hidden_entries_filter:
  assumes "opendir_w w input_path = Some names"
  shows "do_ls f w input_path s =
           (if length (listed_names f names) \<le> MAX_ENTRIES
            then Inr (emit (concat (map (\<lambda>name. do_ls_print f w (entry_path input_path name))
                                        (do_ls_sort f w (listed_names f names)))
                            @ (if \<not> is_column_output_enabled f then [Stdout newline] else []))
                       (closedir_st (opendir_st s)))
            else Inl Array_overflow)
       \<and> mset (do_ls_sort f w (listed_names f names)) = mset (listed_names f names)
       \<and> ((\<forall>n\<in>set (listed_names f names). stat_w w (entry_path input_path n) \<noteq> None) \<longrightarrow>
            list_directory_long_format f w input_path s =
              (if length (listed_names f names) \<le> 1024
               then Inr (emit (total_line (sum_list (map (entry_size w input_path) (listed_names f names)))
                               # concat (map (\<lambda>name. long_print f w (join_path input_path name))
                                             (long_sort f w (listed_names f names))))
                          (closedir_st (opendir_st s)))
               else Inl Array_overflow))
       \<and> mset (long_sort f w (listed_names f names)) = mset (listed_names f names)
       \<and> (\<forall>n\<in>set names. n \<notin> set (listed_names f names) \<longleftrightarrow>
            take 1 n = ''.'' \<and> \<not> is_hidden_files_enabled f \<and> \<not> is_no_sort_enabled f)
       \<and> (is_no_sort_enabled f \<longrightarrow> listed_names f names = names)"
proof -
  have dot: "(case n of [] \<Rightarrow> False | c # cs \<Rightarrow> c = CHR ''.'') \<longleftrightarrow> take 1 n = ''.''" for n
    by (cases n) auto
  have omit: "\<forall>n\<in>set names. n \<notin> set (listed_names f names) \<longleftrightarrow>
            take 1 n = ''.'' \<and> \<not> is_hidden_files_enabled f \<and> \<not> is_no_sort_enabled f"
    by (simp add: listed_names_def skip_entry_def dot)
  have nosort: "is_no_sort_enabled f \<longrightarrow> listed_names f names = names"
    by (simp add: listed_names_def skip_entry_def)
  show ?thesis
    using do_ls_directory[OF assms, of f s] long_directory[OF assms, of f s]
      mset_do_ls_sort mset_long_sort omit nosort
    by blast
qed

theorem hidden_entries_filter_witness:
  "opendir_w elsewhere_world ''d'' = Some [''.'', ''..'', ''y'', ''x'']
   \<and> listed_names (parse_options ''l'') [''.'', ''..'', ''y'', ''x''] = [''y'', ''x'']
   \<and> map_sum id written (do_ls (parse_options ''1'') elsewhere_world ''d'' start)
       = Inr [Stdout (''x'' @ newline), Stdout (''y'' @ newline)]
   \<and> stat_w elsewhere_world (entry_path ''d'' ''y'') \<noteq> None
   \<and> stat_w elsewhere_world (entry_path ''d'' ''x'') \<noteq> None
   \<and> list_directory_long_format (parse_options ''l'') elsewhere_world ''d'' start =
        Inr (emit (total_line (sum_list (map (entry_size elsewhere_world ''d'') [''y'', ''x'']))
                   # concat (map (\<lambda>name. long_print (parse_options ''l'') elsewhere_world (join_path ''d'' name))
                                 (long_sort (parse_options ''l'') elsewhere_world [''y'', ''x''])))
               (closedir_st (opendir_st start)))
   \<and> is_no_sort_enabled (parse_options ''f'')
   \<and> listed_names (parse_options ''f'') [''.'', ''..'', ''y'', ''x''] = [''.'', ''..'', ''y'', ''x'']"
proof -
  have h: "opendir_w elsewhere_world ''d'' = Some [''.'', ''..'', ''y'', ''x'']"
    by code_simp
  have l: "listed_names (parse_options ''l'') [''.'', ''..'', ''y'', ''x''] = [''y'', ''x'']"
    by code_simp
  have st: "\<forall>n\<in>set (listed_names (parse_options ''l'') [''.'', ''..'', ''y'', ''x'']).
         stat_w elsewhere_world (entry_path ''d'' n) \<noteq> None"
    by code_simp
  have nosort: "is_no_sort_enabled (parse_options ''f'')"
    by code_simp
  have col: "listed_names (parse_options ''1'') [''.'', ''..'', ''y'', ''x''] = [''y'', ''x'']"
    by code_simp
  have pr: "concat (map (\<lambda>name. do_ls_print (parse_options ''1'') elsewhere_world (entry_path ''d'' name))
                 (do_ls_sort (parse_options ''1'') elsewhere_world [''y'', ''x'']))
            @ (if \<not> is_column_output_enabled (parse_options ''1'') then [Stdout newline] else [])
          = [Stdout (''x'' @ newline), Stdout (''y'' @ newline)]"
    by code_simp
  have len: "length [''y'', ''x''] \<le> MAX_ENTRIES"
    by (simp add: MAX_ENTRIES_def)
  have out: "map_sum id written (do_ls (parse_options ''1'') elsewhere_world ''d'' start)
       = Inr [Stdout (''x'' @ newline), Stdout (''y'' @ newline)]"
    using hidden_entries_filter[OF h, of "parse_options ''1''" start] col pr len
    by (simp add: emit_def closedir_st_def opendir_st_def start_def)
  show ?thesis
    using hidden_entries_filter[OF h, of "parse_options ''l''" start]
          hidden_entries_filter[OF h, of "parse_options ''f''" start] h l st nosort out
    by (simp add: l)
qed

text \<open>
  C8. The permission text of the long format has nine characters over the template
  \<open>rwxrwxrwx\<close>: a permission bit that is not set shows \<open>-\<close>; the owner-execute
  position shows \<open>s\<close> when the setuid bit is set as well, the group-execute position
  \<open>s\<close> for setgid, the other-execute position \<open>t\<close> for the sticky bit. With all nine
  permission bits and setuid, setgid and sticky set (octal 7777) the text is \<open>rwsrwsrwt\<close>.
\<close>

theorem permission_string_layout:
  "permission_string mode =
     [if mode AND S_IRUSR \<noteq> 0 then CHR ''r'' else CHR ''-'',
      if mode AND S_IWUSR \<noteq> 0 then CHR ''w'' else CHR ''-'',
      if mode AND S_IXUSR \<noteq> 0 then (if mode AND S_ISUID \<noteq> 0 then CHR ''s'' else CHR ''x'') else CHR ''-'',
      if mode AND S_IRGRP \<noteq> 0 then CHR ''r'' else CHR ''-'',
      if mode AND S_IWGRP \<noteq> 0 then CHR ''w'' else CHR ''-'',
      if mode AND S_IXGRP \<noteq> 0 then (if mode AND S_ISGID \<noteq> 0 then CHR ''s'' else CHR ''x'') else CHR ''-'',
      if mode AND S_IROTH \<noteq> 0 then CHR ''r'' else CHR ''-'',
      if mode AND S_IWOTH \<noteq> 0 then CHR ''w'' else CHR ''-'',
      if mode AND S_IXOTH \<noteq> 0 then (if mode AND S_ISVTX \<noteq> 0 then CHR ''t'' else CHR ''x'') else CHR ''-'']
   \<and> length (permission_string mode) = 9
   \<and> permission_string 0xFFF = ''rwsrwsrwt''"
proof -
  have ex: "permission_string 0xFFF = ''rwsrwsrwt''"
    by (simp add: permission_string_positions mode_bits)
  have len: "length (permission_string mode) = 9"
    by (subst permission_string_positions) simp
  show ?thesis using permission_string_positions[of mode] ex len by blast
qed

theorem permission_string_layout_witness:
  "permission_string 0x81A4 = ''rw-r--r--''"
  using permission_string_layout[of "0x81A4"] by (simp add: mode_bits)

text \<open>
  C9. The line \<open>total N\<close> of a long listing should give the sum of the sizes of the listed
  entries, divided by 1024 and rounded down. The first pass of
  \<open>list_directory_long_format\<close> adds up the sizes \<open>stat\<close> reports, and \<open>stat\<close> follows
  symbolic links, while each line of the listing shows the size \<open>lstat\<close> reports for
  the entry itself. For the directory whose only entry is a link of size 23 to a file of
  2048 bytes the listing shows the one entry with size 23 under the line \<open>total 2\<close>,
  where 23 divided by 1024 gives 0.
\<close>

theorem total_counts_link_target:
  "map_sum id written (list_directory_long_format (parse_options ''l'') link_world ''d'' start)
     = Inr [Stdout (''total 2'' @ newline),
            Stdout ''l'', Stdout ''rwxrwxrwx '', Stdout ''1  '', Stdout ''  root '',
            Stdout ''  root '', Stdout ''   23 '', Stdout '' Monday 01 00:00 '',
            Stdout (cyan ''link'' @ '' -> /home/user/payload.data   ''), Stdout newline]
   \<and> listed_names (parse_options ''l'') [''.'', ''..'', ''link''] = [''link'']
   \<and> map_option st_size (lstat_w link_world (join_path ''d'' ''link'')) = Some 23
   \<and> map_option st_size (stat_w link_world (entry_path ''d'' ''link'')) = Some 2048
   \<and> (23 :: int) div 1024 = 0"
  by code_simp

text \<open>
  C10. The time comparators call \<open>stat\<close> on the bare name they are given. For an entry
  of a listed directory whose name does not exist in the working directory, \<open>stat\<close> on
  the bare name fails although the entry itself has metadata: the comparison then returns
  1 with that name on the left and \<open>-1\<close> with it on the right, and no timestamp is read.
  In the sample, \<open>y\<close> is the newer file of \<open>d\<close> and is printed last.
\<close>

theorem comparators_stat_bare_name:
  assumes "stat_w w name = None" and "stat_w w (entry_path input_path name) = Some st"
  shows "compare_by_access_time w name other = 1
       \<and> compare_by_ctime w name other = 1
       \<and> (stat_w w other \<noteq> None \<longrightarrow>
            compare_by_access_time w other name = - 1 \<and> compare_by_ctime w other name = - 1)"
  using assms(1) by (auto simp: compare_by_access_time_def compare_by_ctime_def)

theorem comparators_stat_bare_name_witness:
  "stat_w elsewhere_world ''y'' = None
   \<and> stat_w elsewhere_world (entry_path ''d'' ''y'') = Some (regular_file 1000 200 200 200)
   \<and> stat_w elsewhere_world (entry_path ''d'' ''x'') = Some (regular_file 1500 100 100 100)
   \<and> compare_by_access_time elsewhere_world ''y'' ''x'' = 1
   \<and> compare_by_ctime elsewhere_world ''y'' ''x'' = 1
   \<and> stat_w elsewhere_world ''.'' \<noteq> None
   \<and> compare_by_access_time elsewhere_world ''.'' ''y'' = - 1
   \<and> compare_by_ctime elsewhere_world ''.'' ''y'' = - 1
   \<and> map_sum id written (do_ls (parse_options ''u'') elsewhere_world ''d'' start)
       = Inr [Stdout ''x   '', Stdout ''y   '', Stdout newline]"
proof -
  have h1: "stat_w elsewhere_world ''y'' = None"
    by code_simp
  have h2: "stat_w elsewhere_world (entry_path ''d'' ''y'') = Some (regular_file 1000 200 200 200)"
    by code_simp
  have h3: "stat_w elsewhere_world (entry_path ''d'' ''x'') = Some (regular_file 1500 100 100 100)"
    by code_simp
  have h4: "stat_w elsewhere_world ''.'' \<noteq> None"
    by code_simp
  have out: "map_sum id written (do_ls (parse_options ''u'') elsewhere_world ''d'' start)
       = Inr [Stdout ''x   '', Stdout ''y   '', Stdout newline]"
    by code_simp
  show ?thesis
    using comparators_stat_bare_name[OF h1 h2, of "''x''"]
          comparators_stat_bare_name[OF h1 h2, of "''.''"] h1 h2 h3 h4 out
    by simp
qed

end
